theory Spec2Isabelle
  imports Complex_Main
begin

section \<open>JavaScript numbers\<close>

text \<open>
  Every quantity of the trace viewer (times, zoom factors, pixel offsets) is a JavaScript
  number. The model keeps the special values of IEEE 754 that the arithmetic of the
  program can produce, and takes a finite number to be the real it denotes: rounding and
  overflow of finite results are not modelled, and there is one zero (it behaves as +0,
  which is the zero that \<open>t - t\<close> yields). A negative zero cannot be written here, so
  what is proved of a division by zero in general is stated on the value of the quotient
  and not on the sign of the zero; and an equality of two computed finite numbers is an
  equality of the exact values.
\<close>

datatype jsnum = Num real | PosInf | NegInf | NaN

fun inf_of_sign :: "real \<Rightarrow> jsnum" where
  "inf_of_sign s = (if 0 < s then PosInf else if s < 0 then NegInf else NaN)"

instantiation jsnum :: "{uminus, plus, minus, times, inverse}"
begin

fun uminus_jsnum :: "jsnum \<Rightarrow> jsnum" where
  "uminus_jsnum (Num a) = Num (- a)"
| "uminus_jsnum PosInf = NegInf"
| "uminus_jsnum NegInf = PosInf"
| "uminus_jsnum NaN = NaN"

fun plus_jsnum :: "jsnum \<Rightarrow> jsnum \<Rightarrow> jsnum" where
  "plus_jsnum NaN b = NaN"
| "plus_jsnum a NaN = NaN"
| "plus_jsnum (Num a) (Num b) = Num (a + b)"
| "plus_jsnum (Num a) b = b"
| "plus_jsnum a (Num b) = a"
| "plus_jsnum PosInf PosInf = PosInf"
| "plus_jsnum NegInf NegInf = NegInf"
| "plus_jsnum PosInf NegInf = NaN"
| "plus_jsnum NegInf PosInf = NaN"

definition minus_jsnum :: "jsnum \<Rightarrow> jsnum \<Rightarrow> jsnum" where
  "minus_jsnum a b = a + (- b)"

fun times_jsnum :: "jsnum \<Rightarrow> jsnum \<Rightarrow> jsnum" where
  "times_jsnum NaN b = NaN"
| "times_jsnum a NaN = NaN"
| "times_jsnum (Num a) (Num b) = Num (a * b)"
| "times_jsnum (Num a) PosInf = inf_of_sign a"
| "times_jsnum (Num a) NegInf = inf_of_sign (- a)"
| "times_jsnum PosInf (Num b) = inf_of_sign b"
| "times_jsnum NegInf (Num b) = inf_of_sign (- b)"
| "times_jsnum PosInf PosInf = PosInf"
| "times_jsnum NegInf NegInf = PosInf"
| "times_jsnum PosInf NegInf = NegInf"
| "times_jsnum NegInf PosInf = NegInf"

fun divide_jsnum :: "jsnum \<Rightarrow> jsnum \<Rightarrow> jsnum" where
  "divide_jsnum NaN b = NaN"
| "divide_jsnum a NaN = NaN"
| "divide_jsnum (Num a) (Num b) = (if b = 0 then inf_of_sign a else Num (a / b))"
| "divide_jsnum (Num a) b = Num 0"
| "divide_jsnum PosInf (Num b) = (if 0 \<le> b then PosInf else NegInf)"
| "divide_jsnum NegInf (Num b) = (if 0 \<le> b then NegInf else PosInf)"
| "divide_jsnum a b = NaN"

definition inverse_jsnum :: "jsnum \<Rightarrow> jsnum" where
  "inverse_jsnum a = divide (Num 1) a"

instance ..

end

text \<open>The comparison \<open><\<close>: false as soon as one side is NaN.\<close>

fun js_lt :: "jsnum \<Rightarrow> jsnum \<Rightarrow> bool" where
  "js_lt NaN b = False"
| "js_lt a NaN = False"
| "js_lt (Num a) (Num b) = (a < b)"
| "js_lt (Num a) PosInf = True"
| "js_lt (Num a) NegInf = False"
| "js_lt PosInf b = False"
| "js_lt NegInf NegInf = False"
| "js_lt NegInf b = True"

text \<open>The comparison \<open><=\<close>.\<close>

fun js_le :: "jsnum \<Rightarrow> jsnum \<Rightarrow> bool" where
  "js_le NaN b = False"
| "js_le a NaN = False"
| "js_le a b = (\<not> js_lt b a)"

text \<open>Strict equality \<open>===\<close> of two numbers: NaN equals nothing, itself included.\<close>

definition js_strict_eq :: "jsnum \<Rightarrow> jsnum \<Rightarrow> bool" where
  "js_strict_eq a b = (a \<noteq> NaN \<and> b \<noteq> NaN \<and> a = b)"

text \<open>\<open>Math.max\<close> and \<open>Math.min\<close> of two numbers: NaN as soon as one argument is NaN.\<close>

definition Math_max :: "jsnum \<Rightarrow> jsnum \<Rightarrow> jsnum" where
  "Math_max a b = (if a = NaN \<or> b = NaN then NaN else if js_lt a b then b else a)"

definition Math_min :: "jsnum \<Rightarrow> jsnum \<Rightarrow> jsnum" where
  "Math_min a b = (if a = NaN \<or> b = NaN then NaN else if js_lt b a then b else a)"


section \<open>Data model\<close>

text \<open>
  The types of the trace component. Three field names are suffixed because HOL has
  constants of the same name: \<open>measure\<close> is \<open>measure_m\<close>, \<open>group\<close> is \<open>group_m\<close>, the
  \<open>size\<close> of the extents is \<open>size_e\<close>; the \<open>x\<close> and \<open>y\<close> of a layout are \<open>x_px\<close> and
  \<open>y_px\<close>.
\<close>

record Measure =
  name :: string
  startTime :: jsnum
  duration :: jsnum
  group_m :: "string option"

record RenderableMeasure =
  measure_m :: Measure
  stackIndex :: nat

record Layout =
  width :: jsnum
  height :: jsnum
  x_px :: jsnum
  y_px :: jsnum
  inView :: bool

record Extents =
  startOffset :: jsnum
  endOffset :: jsnum
  size_e :: jsnum

datatype Renderer = Canvas | Dom | Webgl

record Props =
  truncateLabels :: bool
  trace :: "Measure list"
  renderer :: Renderer
  viewportWidth :: jsnum
  viewportHeight :: jsnum

record State =
  center :: jsnum
  dragging :: bool
  dragMoved :: bool
  hovered :: "RenderableMeasure option"
  selection :: "RenderableMeasure option"
  zoom :: jsnum

text \<open>
  What the handlers read of a mouse or wheel event: \<open>rect_left\<close> and \<open>rect_top\<close> are the
  \<open>left\<close> and \<open>top\<close> of \<open>event.currentTarget.getBoundingClientRect()\<close>.
\<close>

record MouseEvent =
  clientX :: jsnum
  clientY :: jsnum
  rect_left :: jsnum
  rect_top :: jsnum
  movementX :: jsnum
  deltaY :: jsnum

text \<open>
  The tooltip element: its \<open>style.left\<close> and \<open>style.top\<close> in pixels, and the measure whose
  duration and name its text content was last written from (the formatting of the text is
  not modelled).
\<close>

record Tooltip =
  tip_left :: jsnum
  tip_top :: jsnum
  tip_content :: "Measure option"

text \<open>
  An instance of the component: its props, its state and its instance fields.
  \<open>renderedShapes\<close> is the \<open>Map\<close> from the layouts drawn by the last canvas render to their
  measures, in insertion order (each layout is a fresh object, so every entry is kept);
  \<open>tooltip\<close> is \<open>None\<close> until the tooltip element is mounted.
\<close>

record Component =
  props :: Props
  state :: State
  renderedShapes :: "(Layout \<times> RenderableMeasure) list"
  mouseX :: jsnum
  mouseY :: jsnum
  tooltip :: "Tooltip option"

text \<open>
  \<open>transformTrace\<close> (module \<open>calculateTraceLayout\<close>) computes the renderable trace of a
  trace. The module is not among the sources: the functions below take it as their
  first parameter \<open>tt\<close>, and what is proved of them holds for every such function.
\<close>

type_synonym transformTrace = "Measure list \<Rightarrow> RenderableMeasure list"

text \<open>Reading a property of \<open>undefined\<close> throws a \<open>TypeError\<close>.\<close>

datatype error = TypeError

text \<open>Sequencing of two computations that may throw.\<close>

definition bind_err :: "error + 'a \<Rightarrow> ('a \<Rightarrow> error + 'b) \<Rightarrow> error + 'b" where
  "bind_err r f = (case r of Inl e \<Rightarrow> Inl e | Inr v \<Rightarrow> f v)"

section \<open>The single-file trace component (\<open>src/unnamed/part_000\<close>)\<close>

definition BAR_HEIGHT :: jsnum where "BAR_HEIGHT = Num 16"
definition BAR_Y_GUTTER :: jsnum where "BAR_Y_GUTTER = Num 1"
definition BAR_X_GUTTER :: jsnum where "BAR_X_GUTTER = Num 1"
definition PX_PER_MS :: jsnum where "PX_PER_MS = Num 1"
definition MIN_ZOOM :: jsnum where "MIN_ZOOM = Num (2 / 10)"
definition MAX_ZOOM :: jsnum where "MAX_ZOOM = Num 100"
definition TOOLTIP_OFFSET :: jsnum where "TOOLTIP_OFFSET = Num 8"

text \<open>
  \<open>localStorage\<close>, read through \<open>parseFloat\<close>: \<open>None\<close> for an absent item, otherwise the
  number \<open>parseFloat\<close> makes of the stored string (NaN when it is not a number).
\<close>

type_synonym storage = "string \<Rightarrow> jsnum option"

definition loadValue :: "storage \<Rightarrow> string \<Rightarrow> jsnum \<Rightarrow> jsnum" where
  "loadValue ls nm defaultVal =
     (case ls nm of
        None \<Rightarrow> defaultVal
      | Some parsed \<Rightarrow> if parsed \<noteq> NaN then parsed else defaultVal)"

text \<open>
  \<open>_getExtents\<close>: \<open>renderableTrace[0]\<close> of an empty array is \<open>undefined\<close>, and reading its
  \<open>measure\<close> throws.
\<close>

definition getExtents :: "transformTrace \<Rightarrow> 'a Props_scheme \<Rightarrow> error + Extents" where
  "getExtents tt p =
     (let renderableTrace = tt (trace p) in
      case renderableTrace of
        [] \<Rightarrow> Inl TypeError
      | first # rest \<Rightarrow>
          let startOffset = startTime (measure_m first);
              lst = last renderableTrace;
              endOffset = startTime (measure_m lst) + duration (measure_m lst)
          in Inr \<lparr>startOffset = startOffset, endOffset = endOffset,
                   size_e = endOffset - startOffset\<rparr>)"

definition clampCenter :: "transformTrace \<Rightarrow> 'a Props_scheme \<Rightarrow> jsnum \<Rightarrow> error + jsnum" where
  "clampCenter tt p updated =
     (case getExtents tt p of
        Inl e \<Rightarrow> Inl e
      | Inr ext \<Rightarrow> Inr (Math_max (startOffset ext) (Math_min (endOffset ext) updated)))"

definition clampZoom :: "jsnum \<Rightarrow> jsnum" where
  "clampZoom updated = Math_max MIN_ZOOM (Math_min MAX_ZOOM updated)"

text \<open>The constructor: the extents are computed first, before any state exists.\<close>

definition constructor :: "transformTrace \<Rightarrow> storage \<Rightarrow> Props \<Rightarrow> error + Component" where
  "constructor tt ls p =
     (case getExtents tt p of
        Inl e \<Rightarrow> Inl e
      | Inr ext \<Rightarrow>
          let zoom0 = loadValue ls ''zoom'' (Num 1) in
          Inr \<lparr>props = p,
               state = \<lparr>center = loadValue ls ''center''
                                    (startOffset ext + viewportWidth p / PX_PER_MS / Num 2),
                        dragging = False, dragMoved = False,
                        hovered = None, selection = None, zoom = zoom0\<rparr>,
               renderedShapes = [], mouseX = Num 0, mouseY = Num 0, tooltip = None\<rparr>)"

definition getCanvasMousePos :: "MouseEvent \<Rightarrow> jsnum \<times> jsnum" where
  "getCanvasMousePos ev = (clientX ev - rect_left ev, clientY ev - rect_top ev)"

text \<open>The hit test: the first rendered shape that contains the mouse position.\<close>

definition getIntersectingMeasure :: "Component \<Rightarrow> MouseEvent \<Rightarrow> RenderableMeasure option" where
  "getIntersectingMeasure c ev =
     (let (canvasMouseX, canvasMouseY) = getCanvasMousePos ev in
      map_option snd
        (find (\<lambda>(l, m). \<not> (js_lt canvasMouseX (x_px l) \<or>
                            js_lt (x_px l + width l) canvasMouseX \<or>
                            (js_lt canvasMouseY (y_px l) \<or>
                             js_lt (y_px l + height l) canvasMouseY)))
              (renderedShapes c)))"

definition mouseDown :: "Component \<Rightarrow> MouseEvent \<Rightarrow> Component" where
  "mouseDown c ev = c\<lparr>state := (state c)\<lparr>dragging := True, dragMoved := False\<rparr>\<rparr>"

text \<open>
  \<open>_mouseMove\<close>: the mouse position and the tooltip element are written in every case;
  the state is set only while dragging (the \<open>setState({hovered})\<close> of the other branch
  is commented out in the source).
\<close>

definition mouseMove :: "transformTrace \<Rightarrow> Component \<Rightarrow> MouseEvent \<Rightarrow> error + Component" where
  "mouseMove tt c ev =
     (let hov = getIntersectingMeasure c ev;
          (canvasMouseX, canvasMouseY) = getCanvasMousePos ev;
          c1 = c\<lparr>mouseX := canvasMouseX, mouseY := canvasMouseY\<rparr>;
          c2 = (case tooltip c1 of
                  None \<Rightarrow> c1
                | Some t \<Rightarrow>
                    c1\<lparr>tooltip := Some
                         \<lparr>tip_left = mouseX c1 + TOOLTIP_OFFSET,
                          tip_top = mouseY c1 + TOOLTIP_OFFSET,
                          tip_content = (case hov of
                                           None \<Rightarrow> tip_content t
                                         | Some h \<Rightarrow> Some (measure_m h))\<rparr>\<rparr>)
      in if dragging (state c) then
           (let updated = center (state c) - movementX ev / PX_PER_MS / zoom (state c) in
            case clampCenter tt (props c) updated of
              Inl e \<Rightarrow> Inl e
            | Inr cc \<Rightarrow>
                Inr (c2\<lparr>state := (state c)\<lparr>center := cc, hovered := hov,
                                             dragMoved := True\<rparr>\<rparr>))
         else Inr c2)"

definition mouseUp :: "Component \<Rightarrow> MouseEvent \<Rightarrow> Component" where
  "mouseUp c ev =
     c\<lparr>state := (state c)
         \<lparr>dragging := False, dragMoved := False,
          selection := (if \<not> dragMoved (state c)
                        then getIntersectingMeasure c ev
                        else selection (state c))\<rparr>\<rparr>"

text \<open>
  \<open>_handleWheel\<close>: zoom centred on the mouse. Its three locals are definitions of their
  own, so that statements about the handler can name them.
\<close>

definition mouseOffsetFromCenter :: "Component \<Rightarrow> MouseEvent \<Rightarrow> jsnum" where
  "mouseOffsetFromCenter c ev = fst (getCanvasMousePos ev) - viewportWidth (props c) / Num 2"

definition updatedZoom :: "Component \<Rightarrow> MouseEvent \<Rightarrow> jsnum" where
  "updatedZoom c ev = zoom (state c) * (Num 1 + Num (5 / 1000) * (- deltaY ev))"

definition updatedCenter :: "Component \<Rightarrow> MouseEvent \<Rightarrow> jsnum" where
  "updatedCenter c ev =
     center (state c)
     + mouseOffsetFromCenter c ev / PX_PER_MS / zoom (state c)
     - mouseOffsetFromCenter c ev / PX_PER_MS / updatedZoom c ev"

definition handleWheel :: "transformTrace \<Rightarrow> Component \<Rightarrow> MouseEvent \<Rightarrow> error + Component" where
  "handleWheel tt c ev =
     (if \<not> js_strict_eq (clampZoom (updatedZoom c ev)) (zoom (state c)) then
        (case clampCenter tt (props c) (updatedCenter c ev) of
           Inl e \<Rightarrow> Inl e
         | Inr cc \<Rightarrow>
             Inr (c\<lparr>state := (state c)\<lparr>zoom := clampZoom (updatedZoom c ev),
                                         center := cc\<rparr>\<rparr>))
      else Inr c)"

text \<open>\<open>_getLayout\<close>: the rectangle of a measure in the current viewport.\<close>

definition getLayout :: "Component \<Rightarrow> RenderableMeasure \<Rightarrow> Layout" where
  "getLayout c m =
     (let centerOffset = center (state c);
          w = Math_max (duration (measure_m m) * PX_PER_MS * zoom (state c) - BAR_X_GUTTER)
                       (Num 0);
          h = BAR_HEIGHT;
          x = (startTime (measure_m m) - centerOffset) * PX_PER_MS * zoom (state c)
              + viewportWidth (props c) / Num 2;
          y = Num (real (stackIndex m)) * (BAR_HEIGHT + BAR_Y_GUTTER)
      in \<lparr>width = w, height = h, x_px = x, y_px = y,
          inView = (\<not> (js_lt (x + w) (Num 0) \<or> js_lt (viewportWidth (props c)) x))\<rparr>)"


text \<open>
  \<open>_renderCanvas\<close>, as far as the instance is concerned: the map of rendered shapes is
  cleared and refilled with the layout of every measure that is in view, in trace order.
  The drawing itself is not modelled.
\<close>

definition renderCanvas :: "transformTrace \<Rightarrow> Component \<Rightarrow> Component" where
  "renderCanvas tt c =
     c\<lparr>renderedShapes :=
         filter (\<lambda>(l, m). inView l)
                (map (\<lambda>m. (getLayout c m, m)) (tt (trace (props c))))\<rparr>"

text \<open>\<open>_handleKey\<close>: \<open>w\<close> and \<open>s\<close> zoom by a factor of two, \<open>a\<close> and \<open>d\<close> pan.\<close>

definition handleKey :: "transformTrace \<Rightarrow> Component \<Rightarrow> string \<Rightarrow> error + Component" where
  "handleKey tt c key =
     (case getExtents tt (props c) of
        Inl e \<Rightarrow> Inl e
      | Inr ext \<Rightarrow>
          if key = ''w'' then
            Inr (c\<lparr>state := (state c)\<lparr>zoom := clampZoom (zoom (state c) * Num 2)\<rparr>\<rparr>)
          else if key = ''a'' then
            (case clampCenter tt (props c)
                    (center (state c) - Num (5 / 100) * size_e ext / zoom (state c)) of
               Inl e \<Rightarrow> Inl e
             | Inr cc \<Rightarrow> Inr (c\<lparr>state := (state c)\<lparr>center := cc\<rparr>\<rparr>))
          else if key = ''s'' then
            Inr (c\<lparr>state := (state c)\<lparr>zoom := clampZoom (zoom (state c) / Num 2)\<rparr>\<rparr>)
          else if key = ''d'' then
            (case clampCenter tt (props c)
                    (center (state c) + Num (5 / 100) * size_e ext / zoom (state c)) of
               Inl e \<Rightarrow> Inl e
             | Inr cc \<Rightarrow> Inr (c\<lparr>state := (state c)\<lparr>center := cc\<rparr>\<rparr>))
          else Inr c)"

section \<open>The trace component of \<open>src/src/Trace.js\<close>\<close>

text \<open>
  This version of the component delegates rendering and the mouse handlers to renderer
  components and keeps the viewport state. Its props and state extend those above.
  The module \<open>./constants\<close> it imports \<open>PX_PER_MS\<close> and \<open>MAX_ZOOM\<close> from is not among the
  sources, so the two constants are parameters of the model. \<open>_getExtents\<close> and
  \<open>_clampCenter\<close> are the functions \<open>getExtents\<close> and \<open>clampCenter\<close> above: here
  \<open>_getExtents\<close> also computes the layout of every group, and discards it.
\<close>

record Constants =
  px_per_ms :: jsnum
  max_zoom :: jsnum

record Trace_Props = Props +
  groupOrder :: "string list option"
  persistView :: bool

record Trace_State = State +
  verticalOffset :: jsnum
  defaultCenter :: jsnum
  defaultZoom :: jsnum
  zooming :: bool

definition USE_PERSISTENT_STATE :: bool where "USE_PERSISTENT_STATE = False"

definition Trace_loadValue :: "storage \<Rightarrow> Trace_Props \<Rightarrow> string \<Rightarrow> jsnum \<Rightarrow> jsnum" where
  "Trace_loadValue ls p nm defaultVal =
     (case ls nm of
        None \<Rightarrow> defaultVal
      | Some parsed \<Rightarrow>
          if persistView p \<or> USE_PERSISTENT_STATE then
            (if parsed \<noteq> NaN then parsed else defaultVal)
          else defaultVal)"

definition Trace_constructor ::
  "Constants \<Rightarrow> transformTrace \<Rightarrow> storage \<Rightarrow> Trace_Props \<Rightarrow> error + Trace_State" where
  "Trace_constructor K tt ls p =
     (case getExtents tt p of
        Inl e \<Rightarrow> Inl e
      | Inr ext \<Rightarrow>
          let defaultZoom0 = Num 1;
              defaultCenter0 = startOffset ext + viewportWidth p / px_per_ms K / Num 2;
              zoom0 = Trace_loadValue ls p ''zoom'' defaultZoom0
          in Inr \<lparr>center = Trace_loadValue ls p ''center'' defaultCenter0,
                  dragging = False, dragMoved = False,
                  hovered = None, selection = None, zoom = zoom0,
                  verticalOffset = Num 0, defaultCenter = defaultCenter0,
                  defaultZoom = defaultZoom0, zooming = False\<rparr>)"

definition Trace_getMinZoom :: "transformTrace \<Rightarrow> Trace_Props \<Rightarrow> error + jsnum" where
  "Trace_getMinZoom tt p =
     (case getExtents tt p of
        Inl e \<Rightarrow> Inl e
      | Inr ext \<Rightarrow> Inr (viewportWidth p / size_e ext))"

definition Trace_clampZoom ::
  "Constants \<Rightarrow> transformTrace \<Rightarrow> Trace_Props \<Rightarrow> jsnum \<Rightarrow> error + jsnum" where
  "Trace_clampZoom K tt p updated =
     (case Trace_getMinZoom tt p of
        Inl e \<Rightarrow> Inl e
      | Inr minZoom \<Rightarrow> Inr (Math_max minZoom (Math_min (max_zoom K) updated)))"




section \<open>Notions of the specification\<close>

text \<open>
  Modelled from the spec: \<open>pixelToTime\<close>, the inverse of the projection of a time to a
  pixel, belongs to the module \<open>renderUtils\<close>, which is not among the sources. The
  specification gives it as
  \<open>pixelToTime(px, state) = (px - state.viewportWidth/2) / state.zoom + state.center\<close>.
\<close>

definition pixelToTime :: "jsnum \<Rightarrow> 'a Props_scheme \<Rightarrow> 'b State_scheme \<Rightarrow> jsnum" where
  "pixelToTime px p s = (px - viewportWidth p / Num 2) / zoom s + center s"

text \<open>The end time of a measure.\<close>

definition endTime :: "RenderableMeasure \<Rightarrow> jsnum" where
  "endTime r = startTime (measure_m r) + duration (measure_m r)"

text \<open>
  The minimum start time and the maximum end time over a whole renderable trace, as the
  specification words the extents; \<open>None\<close> for the empty trace.
\<close>

fun minStartTime :: "RenderableMeasure list \<Rightarrow> jsnum option" where
  "minStartTime [] = None"
| "minStartTime (r # rs) =
     (case minStartTime rs of
        None \<Rightarrow> Some (startTime (measure_m r))
      | Some m \<Rightarrow> Some (Math_min (startTime (measure_m r)) m))"

fun maxEndTime :: "RenderableMeasure list \<Rightarrow> jsnum option" where
  "maxEndTime [] = None"
| "maxEndTime (r # rs) =
     (case maxEndTime rs of
        None \<Rightarrow> Some (endTime r)
      | Some m \<Rightarrow> Some (Math_max (endTime r) m))"

text \<open>A renderable trace sorted by start time, as the layout engine is to return it.\<close>

definition sortedByStart :: "RenderableMeasure list \<Rightarrow> bool" where
  "sortedByStart rs =
     sorted_wrt (\<lambda>a b. js_le (startTime (measure_m a)) (startTime (measure_m b))) rs"


section \<open>Concrete inputs\<close>

text \<open>
  The scenario of the specification: \<open>A\<close> spans \<open>[0, 10]\<close> in lane 0, \<open>B\<close> spans \<open>[2, 5]\<close>
  and \<open>C\<close> spans \<open>[6, 8]\<close>, both in lane 1. The renderable trace is sorted by start time.
\<close>

definition mA :: Measure where
  "mA = \<lparr>name = ''A'', startTime = Num 0, duration = Num 10, group_m = None\<rparr>"

definition mB :: Measure where
  "mB = \<lparr>name = ''B'', startTime = Num 2, duration = Num 3, group_m = None\<rparr>"

definition mC :: Measure where
  "mC = \<lparr>name = ''C'', startTime = Num 6, duration = Num 2, group_m = None\<rparr>"

definition rA :: RenderableMeasure where
  "rA = \<lparr>measure_m = mA, stackIndex = 0\<rparr>"

definition rB :: RenderableMeasure where
  "rB = \<lparr>measure_m = mB, stackIndex = 1\<rparr>"

definition rC :: RenderableMeasure where
  "rC = \<lparr>measure_m = mC, stackIndex = 1\<rparr>"

definition rt_ABC :: "RenderableMeasure list" where
  "rt_ABC = [rA, rB, rC]"

text \<open>A trace of a single measure of duration zero.\<close>

definition mZ :: Measure where
  "mZ = \<lparr>name = ''Z'', startTime = Num 5, duration = Num 0, group_m = None\<rparr>"

definition rt_Z :: "RenderableMeasure list" where
  "rt_Z = [\<lparr>measure_m = mZ, stackIndex = 0\<rparr>]"

text \<open>A trace of a single long measure, spanning \<open>[0, 10000]\<close>.\<close>

definition mL :: Measure where
  "mL = \<lparr>name = ''L'', startTime = Num 0, duration = Num 10000, group_m = None\<rparr>"

definition rt_L :: "RenderableMeasure list" where
  "rt_L = [\<lparr>measure_m = mL, stackIndex = 0\<rparr>]"

text \<open>
  A layout function that is known at one trace: it lays the measures of \<open>rs\<close> out as
  \<open>rs\<close>, and every other trace as the empty renderable trace. \<open>layoutOf []\<close> lays the
  empty trace out as the empty renderable trace.
\<close>

definition layoutOf :: "RenderableMeasure list \<Rightarrow> transformTrace" where
  "layoutOf rs = (\<lambda>tr. if tr = map measure_m rs then rs else [])"

text \<open>The props the application mounts the component with (\<open>src/src/App.js\<close>).\<close>

definition props_of :: "Measure list \<Rightarrow> Props" where
  "props_of tr = \<lparr>truncateLabels = True, trace = tr, renderer = Canvas,
                  viewportWidth = Num 1000, viewportHeight = Num 600\<rparr>"

definition Trace_props_of :: "Measure list \<Rightarrow> bool \<Rightarrow> Trace_Props" where
  "Trace_props_of tr pv = \<lparr>truncateLabels = True, trace = tr, renderer = Canvas,
                          viewportWidth = Num 1000, viewportHeight = Num 600,
                          groupOrder = None, persistView = pv\<rparr>"

text \<open>The values the two imported constants have in the single-file component.\<close>

definition K0 :: Constants where
  "K0 = \<lparr>px_per_ms = Num 1, max_zoom = Num 100\<rparr>"

text \<open>An empty storage, and one that holds a zoom of 1000 and a center of 20000.\<close>

definition ls_empty :: storage where
  "ls_empty = (\<lambda>nm. None)"

definition ls_stored :: storage where
  "ls_stored = (\<lambda>nm. if nm = ''zoom'' then Some (Num 1000)
                     else if nm = ''center'' then Some (Num 20000) else None)"

text \<open>
  A component over the scenario after a canvas render, with a given viewport, drag state
  and selection. At center 4 and zoom 1 the rectangle of \<open>B\<close> is at \<open>x = 498\<close>, \<open>y = 17\<close>,
  2 pixels wide and 16 high.
\<close>

definition comp_of ::
  "jsnum \<Rightarrow> jsnum \<Rightarrow> bool \<Rightarrow> bool \<Rightarrow> RenderableMeasure option \<Rightarrow> Component" where
  "comp_of c z dr dm sel =
     renderCanvas (layoutOf rt_ABC)
       \<lparr>props = props_of [mA, mB, mC],
        state = \<lparr>center = c, dragging = dr, dragMoved = dm,
                 hovered = None, selection = sel, zoom = z\<rparr>,
        renderedShapes = [], mouseX = Num 0, mouseY = Num 0, tooltip = None\<rparr>"

text \<open>A mouse or wheel event at canvas position \<open>(px, py)\<close>, the canvas at the origin.\<close>

definition event_at :: "real \<Rightarrow> real \<Rightarrow> real \<Rightarrow> MouseEvent" where
  "event_at px py dy = \<lparr>clientX = Num px, clientY = Num py, rect_left = Num 0,
                        rect_top = Num 0, movementX = Num 0, deltaY = Num dy\<rparr>"


text \<open>
  The state of the \<open>Trace.js\<close> component with a given center, zoom and default center,
  nothing dragged, hovered or selected.
\<close>

definition Trace_state_of :: "jsnum \<Rightarrow> jsnum \<Rightarrow> jsnum \<Rightarrow> Trace_State" where
  "Trace_state_of c z dc =
     \<lparr>center = c, dragging = False, dragMoved = False, hovered = None, selection = None,
      zoom = z, verticalOffset = Num 0, defaultCenter = dc, defaultZoom = Num 1,
      zooming = False\<rparr>"

text \<open>An event like a given one, with a horizontal movement of \<open>mx\<close> pixels.\<close>

definition moved :: "MouseEvent \<Rightarrow> real \<Rightarrow> MouseEvent" where
  "moved ev mx = ev\<lparr>movementX := Num mx\<rparr>"


text \<open>
  A measure that is not part of any trace, starting at a given time: its layout shows
  where that time is on the screen.
\<close>

definition probe :: "real \<Rightarrow> RenderableMeasure" where
  "probe t = \<lparr>measure_m = \<lparr>name = ''probe'', startTime = Num t, duration = Num 0,
                            group_m = None\<rparr>,
             stackIndex = 0\<rparr>"

text \<open>The same component once its tooltip element is mounted.\<close>

definition with_tooltip :: "Component \<Rightarrow> Component" where
  "with_tooltip c = c\<lparr>tooltip := Some \<lparr>tip_left = Num 0, tip_top = Num 0, tip_content = None\<rparr>\<rparr>"

section \<open>Facts about numbers and about the concrete inputs\<close>

lemma clamp_idem:
  "Math_max lo (Math_min hi (Math_max lo (Math_min hi z))) = Math_max lo (Math_min hi z)"
  by (cases lo; cases hi; cases z; simp add: Math_max_def Math_min_def)

lemma mul_one: "a * Num 1 = a"
  by (cases a) simp_all

lemma div_one: "a / Num 1 = a"
  by (cases a) simp_all

lemma Math_max_not_neg: "\<not> js_lt (Math_max a (Num 0)) (Num 0)"
  by (cases a) (simp_all add: Math_max_def)

lemma getExtents_Nil: "tt (trace p) = [] \<Longrightarrow> getExtents tt p = Inl TypeError"
  by (simp add: getExtents_def)

lemma getExtents_Cons:
  "tt (trace p) = r # rs \<Longrightarrow>
   getExtents tt p =
     Inr \<lparr>startOffset = startTime (measure_m r), endOffset = endTime (last (r # rs)),
          size_e = endTime (last (r # rs)) - startTime (measure_m r)\<rparr>"
  by (simp add: getExtents_def endTime_def Let_def)

lemmas ex_defs = comp_of_def renderCanvas_def layoutOf_def props_of_def Trace_props_of_def
  rt_ABC_def rA_def rB_def rC_def mA_def mB_def mC_def rt_Z_def mZ_def rt_L_def mL_def
  event_at_def K0_def ls_empty_def ls_stored_def
  getLayout_def Let_def PX_PER_MS_def BAR_HEIGHT_def BAR_X_GUTTER_def BAR_Y_GUTTER_def
  MIN_ZOOM_def MAX_ZOOM_def TOOLTIP_OFFSET_def Math_max_def Math_min_def minus_jsnum_def
  getCanvasMousePos_def

lemma getExtents_ABC:
  "trace p = [mA, mB, mC] \<Longrightarrow>
   getExtents (layoutOf rt_ABC) p = Inr \<lparr>startOffset = Num 0, endOffset = Num 8, size_e = Num 8\<rparr>"
  by (simp add: getExtents_def ex_defs)

lemma shapes_ABC:
  "renderedShapes (comp_of (Num 4) (Num 1) dr dm sel) =
   [(\<lparr>width = Num 9, height = Num 16, x_px = Num 496, y_px = Num 0, inView = True\<rparr>, rA),
    (\<lparr>width = Num 2, height = Num 16, x_px = Num 498, y_px = Num 17, inView = True\<rparr>, rB),
    (\<lparr>width = Num 1, height = Num 16, x_px = Num 502, y_px = Num 17, inView = True\<rparr>, rC)]"
  by (simp add: ex_defs)

lemma hit_B:
  "getIntersectingMeasure (comp_of (Num 4) (Num 1) dr dm sel) (event_at 499 20 dy) = Some rB"
  by (simp add: getIntersectingMeasure_def shapes_ABC getCanvasMousePos_def event_at_def
      minus_jsnum_def)

lemma state_comp_of:
  "state (comp_of c z dr dm sel) =
     \<lparr>center = c, dragging = dr, dragMoved = dm, hovered = None, selection = sel, zoom = z\<rparr>"
  by (simp add: comp_of_def renderCanvas_def)

lemma props_comp_of: "props (comp_of c z dr dm sel) = props_of [mA, mB, mC]"
  by (simp add: comp_of_def renderCanvas_def)

lemma mousePos_event_at: "getCanvasMousePos (event_at px py dy) = (Num px, Num py)"
  by (simp add: getCanvasMousePos_def event_at_def minus_jsnum_def)

lemma event_at_sel:
  "clientX (event_at px py dy) = Num px" "clientY (event_at px py dy) = Num py"
  "movementX (event_at px py dy) = Num 0" "deltaY (event_at px py dy) = Num dy"
  by (simp_all add: event_at_def)

lemma props_of_sel:
  "viewportWidth (props_of tr) = Num 1000" "trace (props_of tr) = tr"
  by (simp_all add: props_of_def)

lemma wheel_locals:
  "updatedZoom (comp_of (Num cx) (Num z) dr dm sel) (event_at px py dy)
     = Num (z * (1 + 5 / 1000 * (- dy)))"
  "mouseOffsetFromCenter (comp_of (Num cx) (Num z) dr dm sel) (event_at px py dy)
     = Num (px - 500)"
  by (simp_all add: updatedZoom_def mouseOffsetFromCenter_def state_comp_of props_comp_of
      props_of_sel mousePos_event_at event_at_sel minus_jsnum_def)

lemma hit_B_tooltip:
  "getIntersectingMeasure (with_tooltip (comp_of (Num 4) (Num 1) dr dm sel)) (event_at 499 20 dy)
     = Some rB"
  using hit_B [of dr dm sel dy] by (simp add: getIntersectingMeasure_def with_tooltip_def)




lemma js_le_Math_min: "js_le a b \<Longrightarrow> Math_min a b = a"
  by (cases a; cases b) (simp_all add: Math_min_def)

lemma js_le_Math_max: "js_le a b \<Longrightarrow> Math_max a b = b"
  by (cases a; cases b) (auto simp: Math_max_def)

lemma minStartTime_sorted:
  "sortedByStart (r # rs) \<Longrightarrow> minStartTime (r # rs) = Some (startTime (measure_m r))"
proof (induction rs arbitrary: r)
  case Nil
  then show ?case by simp
next
  case (Cons q qs)
  from Cons.prems have le: "js_le (startTime (measure_m r)) (startTime (measure_m q))"
    and srt: "sortedByStart (q # qs)"
    by (simp_all add: sortedByStart_def)
  from Cons.IH [OF srt] le show ?case
    by (simp add: js_le_Math_min)
qed

lemma maxEndTime_last:
  "rs \<noteq> [] \<Longrightarrow> \<forall>q \<in> set rs. js_le (endTime q) (endTime (last rs)) \<Longrightarrow>
   maxEndTime rs = Some (endTime (last rs))"
proof (induction rs)
  case Nil
  then show ?case by simp
next
  case (Cons r rs)
  show ?case
  proof (cases rs)
    case Nil
    then show ?thesis by simp
  next
    case (Cons q qs)
    with Cons.prems Cons.IH have "maxEndTime rs = Some (endTime (last rs))"
      by simp
    moreover from Cons Cons.prems have "js_le (endTime r) (endTime (last rs))"
      by simp
    ultimately show ?thesis
      using Cons by (simp add: js_le_Math_max)
  qed
qed

lemma mouseMove_idle:
  "\<not> dragging (state c) \<Longrightarrow>
   \<exists>c'. mouseMove tt c ev = Inr c' \<and> state c' = state c \<and>
        (mouseX c', mouseY c') = getCanvasMousePos ev \<and>
        (\<forall>t. tooltip c = Some t \<longrightarrow>
           (\<exists>t'. tooltip c' = Some t' \<and>
                 tip_content t' = (case getIntersectingMeasure c ev of
                                     None \<Rightarrow> tip_content t
                                   | Some h \<Rightarrow> Some (measure_m h))))"
  by (cases "tooltip c") (auto simp: mouseMove_def Let_def split: prod.splits)

lemma mousePos_moved: "getCanvasMousePos (moved ev mx) = getCanvasMousePos ev"
  by (simp add: getCanvasMousePos_def moved_def)

lemma hit_moved: "getIntersectingMeasure c (moved ev mx) = getIntersectingMeasure c ev"
  by (simp add: getIntersectingMeasure_def mousePos_moved)

lemma mouseMove_dragging_state:
  assumes "dragging (state c)" "tt (trace (props c)) \<noteq> []"
  shows "\<exists>c' cc. mouseMove tt c ev = Inr c' \<and>
           clampCenter tt (props c) (center (state c) - movementX ev / zoom (state c)) = Inr cc \<and>
           state c' = (state c)\<lparr>center := cc, hovered := getIntersectingMeasure c ev,
                                  dragMoved := True\<rparr> \<and>
           (mouseX c', mouseY c') = getCanvasMousePos ev"
proof -
  from assms(2) obtain r rs where "tt (trace (props c)) = r # rs"
    by (cases "tt (trace (props c))") auto
  then obtain ext where "getExtents tt (props c) = Inr ext"
    by (simp add: getExtents_Cons)
  then obtain cc where cc: "clampCenter tt (props c)
      (center (state c) - movementX ev / zoom (state c)) = Inr cc"
    by (simp add: clampCenter_def)
  with assms(1) show ?thesis
    by (cases "tooltip c")
       (auto simp: mouseMove_def Let_def PX_PER_MS_def div_one split: prod.splits)
qed











lemma clamp_within:
  "js_le lo u \<Longrightarrow> js_le u hi \<Longrightarrow> Math_max lo (Math_min hi u) = u"
  by (cases lo; cases hi; cases u) (auto simp: Math_max_def Math_min_def)

lemma zoom_bounds_finite:
  assumes "js_le MIN_ZOOM u" "js_le u MAX_ZOOM"
  shows "\<exists>z'. u = Num z' \<and> 2 / 10 \<le> z' \<and> z' \<le> 100"
  using assms by (cases u) (auto simp: MIN_ZOOM_def MAX_ZOOM_def)

lemma x_px_getLayout:
  assumes "zoom (state c) = Num z" "center (state c) = Num cx"
    "startTime (measure_m m) = Num t" "viewportWidth (props c) = Num w"
  shows "x_px (getLayout c m) = Num ((t - cx) * z + w / 2)"
  using assms by (simp add: getLayout_def Let_def PX_PER_MS_def minus_jsnum_def)

text \<open>
  The \<open>pixelToTime\<close> of the specification inverts the projection that \<open>_getLayout\<close>
  computes, for finite numbers and a zoom other than 0.
\<close>

lemma pixelToTime_getLayout:
  assumes "zoom (state c) = Num z" "z \<noteq> 0" "center (state c) = Num cx"
    "startTime (measure_m m) = Num t" "viewportWidth (props c) = Num w"
  shows "pixelToTime (x_px (getLayout c m)) (props c) (state c) = Num t"
  using assms by (simp add: pixelToTime_def getLayout_def Let_def PX_PER_MS_def minus_jsnum_def)

text \<open>
  When the candidate zoom of a wheel event exceeds \<open>MAX_ZOOM\<close>, the stored zoom is the
  clamped one while the stored center was computed from the candidate: from zoom 80, a
  candidate of 120 is stored as 100, and the time under the pointer moves from \<open>21 / 4\<close>
  to \<open>65 / 12\<close>.
\<close>

lemma handleWheel_zoom_clamped:
  "updatedZoom (comp_of (Num 4) (Num 80) False False None) (event_at 600 10 (- 100)) = Num 120 \<and>
   handleWheel (layoutOf rt_ABC) (comp_of (Num 4) (Num 80) False False None)
               (event_at 600 10 (- 100))
     = Inr ((comp_of (Num 4) (Num 80) False False None)
              \<lparr>state := (state (comp_of (Num 4) (Num 80) False False None))
                          \<lparr>zoom := Num 100, center := Num (53 / 12)\<rparr>\<rparr>) \<and>
   pixelToTime (Num 600) (props (comp_of (Num 4) (Num 80) False False None))
               (state (comp_of (Num 4) (Num 80) False False None)) = Num (21 / 4) \<and>
   pixelToTime (Num 600) (props (comp_of (Num 4) (Num 80) False False None))
               ((state (comp_of (Num 4) (Num 80) False False None))
                  \<lparr>zoom := Num 100, center := Num (53 / 12)\<rparr>) = Num (65 / 12)"
proof -
  have uc: "updatedCenter (comp_of (Num 4) (Num 80) False False None) (event_at 600 10 (- 100))
              = Num (53 / 12)"
    by (simp add: updatedCenter_def wheel_locals state_comp_of PX_PER_MS_def minus_jsnum_def)
  have cz: "clampZoom (Num 120) = Num 100"
    by (simp add: clampZoom_def MIN_ZOOM_def MAX_ZOOM_def Math_max_def Math_min_def)
  have cc: "clampCenter (layoutOf rt_ABC) (props_of [mA, mB, mC]) (Num (53 / 12))
              = Inr (Num (53 / 12))"
    by (simp add: clampCenter_def getExtents_ABC props_of_sel Math_max_def Math_min_def)
  show ?thesis
    by (simp add: handleWheel_def wheel_locals uc cz cc js_strict_eq_def state_comp_of
        props_comp_of pixelToTime_def props_of_sel minus_jsnum_def)
qed

section \<open>The claims\<close>

text \<open>
  Claim C1. The extents computation is to return a record or an explicit signal for
  every trace, the empty one included, and never to read element 0 of an empty renderable
  trace. The code does not: on a trace whose renderable trace is empty, \<open>_getExtents\<close>
  reads \<open>renderableTrace[0].measure\<close> and throws, and so does the constructor of either
  version of the component, which computes the extents before anything is rendered.
  (\<open>render\<close> does test \<open>renderableTrace[0] == null\<close> and shows \<open>empty trace\<close>, but
  the constructor runs first.)
\<close>

theorem getExtents_empty_throws:
  "tt (trace p) = [] \<Longrightarrow> tt (trace q) = [] \<Longrightarrow>
   getExtents tt p = Inl TypeError \<and> constructor tt ls p = Inl TypeError \<and>
   getExtents tt q = Inl TypeError \<and> Trace_constructor K tt ls q = Inl TypeError"
  by (simp add: getExtents_Nil constructor_def Trace_constructor_def)

theorem getExtents_empty_throws_witness:
  "layoutOf [] (trace (props_of [])) = [] \<and> layoutOf [] (trace (Trace_props_of [] False)) = [] \<and>
   getExtents (layoutOf []) (props_of []) = Inl TypeError \<and>
   constructor (layoutOf []) ls_empty (props_of []) = Inl TypeError \<and>
   getExtents (layoutOf []) (Trace_props_of [] False) = Inl TypeError \<and>
   Trace_constructor K0 (layoutOf []) ls_empty (Trace_props_of [] False) = Inl TypeError"
proof -
  have a: "layoutOf [] (trace (props_of [])) = []"
    by (simp add: layoutOf_def)
  have b: "layoutOf [] (trace (Trace_props_of [] False)) = []"
    by (simp add: layoutOf_def)
  from a b getExtents_empty_throws [OF a b, of ls_empty K0] show ?thesis
    by simp
qed




text \<open>
  Claim C3. The zoom clamp is idempotent: clamping a clamped zoom gives the clamped zoom
  again, for every zoom \<open>z\<close>, the extents and the viewport width being fixed. This holds
  of the clamp between the constants \<open>MIN_ZOOM\<close> and \<open>MAX_ZOOM\<close> and of the clamp whose
  lower bound is \<open>viewportWidth / size\<close>; the latter throws on an empty trace, both times,
  and returns on every other trace. Equality is that of values: where the clamp yields
  NaN (for \<open>z\<close> NaN, or a lower bound NaN) it yields it again; for every \<open>z\<close> other
  than NaN the two sides of the first clamp are also equal under \<open>===\<close>.
\<close>

theorem clampZoom_idempotent:
  "clampZoom (clampZoom z) = clampZoom z \<and>
   (z \<noteq> NaN \<longrightarrow> js_strict_eq (clampZoom (clampZoom z)) (clampZoom z)) \<and>
   bind_err (Trace_clampZoom K tt p z) (Trace_clampZoom K tt p) = Trace_clampZoom K tt p z \<and>
   (tt (trace p) \<noteq> [] \<longrightarrow>
      (\<exists>z'. Trace_clampZoom K tt p z = Inr z' \<and> Trace_clampZoom K tt p z' = Inr z'))"
proof (intro conjI impI)
  show idem: "clampZoom (clampZoom z) = clampZoom z"
    by (simp add: clampZoom_def clamp_idem)
  show "js_strict_eq (clampZoom (clampZoom z)) (clampZoom z)" if "z \<noteq> NaN"
  proof -
    from that have "clampZoom z \<noteq> NaN"
      by (cases z) (simp_all add: clampZoom_def MIN_ZOOM_def MAX_ZOOM_def Math_max_def
          Math_min_def)
    with idem show ?thesis
      by (simp add: js_strict_eq_def)
  qed
  show "bind_err (Trace_clampZoom K tt p z) (Trace_clampZoom K tt p) = Trace_clampZoom K tt p z"
    by (simp add: bind_err_def Trace_clampZoom_def clamp_idem split: sum.splits)
next
  assume "tt (trace p) \<noteq> []"
  then obtain r rs where "tt (trace p) = r # rs"
    by (cases "tt (trace p)") auto
  then obtain mz where "Trace_getMinZoom tt p = Inr mz"
    by (simp add: Trace_getMinZoom_def getExtents_Cons)
  then show "\<exists>z'. Trace_clampZoom K tt p z = Inr z' \<and> Trace_clampZoom K tt p z' = Inr z'"
    by (simp add: Trace_clampZoom_def clamp_idem)
qed

theorem clampZoom_idempotent_witness:
  "layoutOf rt_ABC (trace (Trace_props_of [mA, mB, mC] False)) \<noteq> [] \<and> Num 250 \<noteq> NaN \<and>
   clampZoom (Num 250) = Num 100 \<and>
   clampZoom (clampZoom (Num 250)) = clampZoom (Num 250) \<and>
   js_strict_eq (clampZoom (clampZoom (Num 250))) (clampZoom (Num 250)) \<and>
   Trace_clampZoom K0 (layoutOf rt_ABC) (Trace_props_of [mA, mB, mC] False) (Num 250)
     = Inr (Num 125) \<and>
   Trace_clampZoom K0 (layoutOf rt_ABC) (Trace_props_of [mA, mB, mC] False) (Num 125)
     = Inr (Num 125)"
  using clampZoom_idempotent
    [of "Num 250" K0 "layoutOf rt_ABC" "Trace_props_of [mA, mB, mC] False"]
  by (simp add: Trace_clampZoom_def Trace_getMinZoom_def getExtents_def clampZoom_def ex_defs)

text \<open>
  Claim C4 (as stated, refuted). The scenario of the specification: zoom 1, a wheel event
  100 pixels right of the viewport center that doubles the zoom, here with the center at
  the end of the extents \<open>[0, 8]\<close>. The closed form gives the new center 58; the handler
  clamps it and stores 8, and the time under the pointer moves from 108 to 58: a measure
  that starts at 108 is drawn under the pointer, at \<open>x = 600\<close>, before the event and at
  \<open>x = 700\<close> after it.
\<close>

theorem handleWheel_center_clamped:
  "updatedZoom (comp_of (Num 8) (Num 1) False False None) (event_at 600 10 (- 200)) = Num 2 \<and>
   mouseOffsetFromCenter (comp_of (Num 8) (Num 1) False False None) (event_at 600 10 (- 200))
     = Num 100 \<and>
   updatedCenter (comp_of (Num 8) (Num 1) False False None) (event_at 600 10 (- 200)) = Num 58 \<and>
   handleWheel (layoutOf rt_ABC) (comp_of (Num 8) (Num 1) False False None)
               (event_at 600 10 (- 200))
     = Inr ((comp_of (Num 8) (Num 1) False False None)
              \<lparr>state := (state (comp_of (Num 8) (Num 1) False False None))
                          \<lparr>zoom := Num 2, center := Num 8\<rparr>\<rparr>) \<and>
   pixelToTime (Num 600) (props (comp_of (Num 8) (Num 1) False False None))
               (state (comp_of (Num 8) (Num 1) False False None)) = Num 108 \<and>
   pixelToTime (Num 600) (props (comp_of (Num 8) (Num 1) False False None))
               ((state (comp_of (Num 8) (Num 1) False False None))
                  \<lparr>zoom := Num 2, center := Num 8\<rparr>) = Num 58 \<and>
   x_px (getLayout (comp_of (Num 8) (Num 1) False False None) (probe 108)) = Num 600 \<and>
   x_px (getLayout ((comp_of (Num 8) (Num 1) False False None)
                      \<lparr>state := (state (comp_of (Num 8) (Num 1) False False None))
                                  \<lparr>zoom := Num 2, center := Num 8\<rparr>\<rparr>) (probe 108)) = Num 700"
proof -
  have uc: "updatedCenter (comp_of (Num 8) (Num 1) False False None) (event_at 600 10 (- 200))
              = Num 58"
    by (simp add: updatedCenter_def wheel_locals state_comp_of PX_PER_MS_def minus_jsnum_def)
  have cz: "clampZoom (Num 2) = Num 2"
    by (simp add: clampZoom_def MIN_ZOOM_def MAX_ZOOM_def Math_max_def Math_min_def)
  have cc: "clampCenter (layoutOf rt_ABC) (props_of [mA, mB, mC]) (Num 58) = Inr (Num 8)"
    by (simp add: clampCenter_def getExtents_ABC props_of_sel Math_max_def Math_min_def)
  have p: "startTime (measure_m (probe 108)) = Num 108"
    by (simp add: probe_def)
  have x1: "x_px (getLayout (comp_of (Num 8) (Num 1) False False None) (probe 108)) = Num 600"
    using x_px_getLayout [of "comp_of (Num 8) (Num 1) False False None" 1 8 "probe 108" 108 1000]
    by (simp add: state_comp_of props_comp_of props_of_sel p)
  have x2: "x_px (getLayout ((comp_of (Num 8) (Num 1) False False None)
                      \<lparr>state := (state (comp_of (Num 8) (Num 1) False False None))
                                  \<lparr>zoom := Num 2, center := Num 8\<rparr>\<rparr>) (probe 108)) = Num 700"
    using x_px_getLayout [of "(comp_of (Num 8) (Num 1) False False None)
                      \<lparr>state := (state (comp_of (Num 8) (Num 1) False False None))
                                  \<lparr>zoom := Num 2, center := Num 8\<rparr>\<rparr>" 2 8 "probe 108" 108 1000]
    by (simp add: state_comp_of props_comp_of props_of_sel p)
  have rest: "updatedZoom (comp_of (Num 8) (Num 1) False False None) (event_at 600 10 (- 200))
       = Num 2 \<and>
     mouseOffsetFromCenter (comp_of (Num 8) (Num 1) False False None) (event_at 600 10 (- 200))
       = Num 100 \<and>
     handleWheel (layoutOf rt_ABC) (comp_of (Num 8) (Num 1) False False None)
               (event_at 600 10 (- 200))
       = Inr ((comp_of (Num 8) (Num 1) False False None)
              \<lparr>state := (state (comp_of (Num 8) (Num 1) False False None))
                          \<lparr>zoom := Num 2, center := Num 8\<rparr>\<rparr>) \<and>
     pixelToTime (Num 600) (props (comp_of (Num 8) (Num 1) False False None))
               (state (comp_of (Num 8) (Num 1) False False None)) = Num 108 \<and>
     pixelToTime (Num 600) (props (comp_of (Num 8) (Num 1) False False None))
               ((state (comp_of (Num 8) (Num 1) False False None))
                  \<lparr>zoom := Num 2, center := Num 8\<rparr>) = Num 58"
    by (simp add: handleWheel_def wheel_locals uc cz cc js_strict_eq_def state_comp_of
        props_comp_of pixelToTime_def props_of_sel minus_jsnum_def)
  from rest uc x1 x2 show ?thesis
    by blast
qed

text \<open>
  Claim C4 (amended). When the candidate zoom of a wheel event differs from the current
  zoom and lies between \<open>MIN_ZOOM\<close> and \<open>MAX_ZOOM\<close>, and the candidate center
  \<open>center + d / zoom - d / newZoom\<close> lies within the extents, so that neither clamp alters
  them, the handler stores the candidate zoom and that center as they were computed.
  Consequently the time under the pointer is unchanged by the zoom, within floating-point
  tolerance. Finite numbers are reals in this development, where this reads: for finite
  numbers and a current zoom other than 0, \<open>pixelToTime\<close> of the pointer pixel is the same
  in the old and the new state, and a measure that \<open>_getLayout\<close> places at the pointer
  pixel before the event is placed there after it.
\<close>

theorem handleWheel_unclamped:
  assumes diff: "\<not> js_strict_eq (updatedZoom c ev) (zoom (state c))"
    and zb: "js_le MIN_ZOOM (updatedZoom c ev)" "js_le (updatedZoom c ev) MAX_ZOOM"
    and ext: "getExtents tt (props c) = Inr ext"
    and cb: "js_le (startOffset ext) (updatedCenter c ev)"
            "js_le (updatedCenter c ev) (endOffset ext)"
  shows "handleWheel tt c ev
           = Inr (c\<lparr>state := (state c)\<lparr>zoom := updatedZoom c ev,
                                       center := updatedCenter c ev\<rparr>\<rparr>) \<and>
         updatedCenter c ev
           = center (state c) + mouseOffsetFromCenter c ev / zoom (state c)
             - mouseOffsetFromCenter c ev / updatedZoom c ev \<and>
         (zoom (state c) = Num z \<and> z \<noteq> 0 \<and> center (state c) = Num cx \<and>
          fst (getCanvasMousePos ev) = Num px \<and> viewportWidth (props c) = Num w \<longrightarrow>
            pixelToTime (Num px) (props c)
                ((state c)\<lparr>zoom := updatedZoom c ev, center := updatedCenter c ev\<rparr>)
              = pixelToTime (Num px) (props c) (state c) \<and>
            (\<forall>m t. startTime (measure_m m) = Num t \<and> x_px (getLayout c m) = Num px \<longrightarrow>
               x_px (getLayout (c\<lparr>state := (state c)\<lparr>zoom := updatedZoom c ev,
                                                      center := updatedCenter c ev\<rparr>\<rparr>) m)
                 = Num px))"
proof (intro conjI impI allI)
  have cz: "clampZoom (updatedZoom c ev) = updatedZoom c ev"
    using zb by (simp add: clampZoom_def clamp_within)
  have cc: "clampCenter tt (props c) (updatedCenter c ev) = Inr (updatedCenter c ev)"
    using cb by (simp add: clampCenter_def ext clamp_within)
  show "handleWheel tt c ev
           = Inr (c\<lparr>state := (state c)\<lparr>zoom := updatedZoom c ev,
                                       center := updatedCenter c ev\<rparr>\<rparr>)"
    using diff by (simp add: handleWheel_def cz cc)
  show uc: "updatedCenter c ev
           = center (state c) + mouseOffsetFromCenter c ev / zoom (state c)
             - mouseOffsetFromCenter c ev / updatedZoom c ev"
    by (simp add: updatedCenter_def PX_PER_MS_def div_one)
  from zb obtain z' where z': "updatedZoom c ev = Num z'" "2 / 10 \<le> z'" "z' \<le> 100"
    using zoom_bounds_finite by blast
  then have nz: "z' \<noteq> 0"
    by auto
  {
    assume h: "zoom (state c) = Num z \<and> z \<noteq> 0 \<and> center (state c) = Num cx \<and>
          fst (getCanvasMousePos ev) = Num px \<and> viewportWidth (props c) = Num w"
    let ?d = "px - w / 2"
    let ?c = "cx + ?d / z - ?d / z'"
    from h have z: "zoom (state c) = Num z" "z \<noteq> 0" and cx: "center (state c) = Num cx"
      and px: "fst (getCanvasMousePos ev) = Num px" and w: "viewportWidth (props c) = Num w"
      by simp_all
    have d: "mouseOffsetFromCenter c ev = Num ?d"
      by (simp add: mouseOffsetFromCenter_def px w minus_jsnum_def)
    have ucv: "updatedCenter c ev = Num ?c"
      using z nz by (simp add: uc z' cx d minus_jsnum_def)
    show "pixelToTime (Num px) (props c)
                ((state c)\<lparr>zoom := updatedZoom c ev, center := updatedCenter c ev\<rparr>)
              = pixelToTime (Num px) (props c) (state c)"
      using z nz by (simp add: pixelToTime_def w cx z'(1) ucv minus_jsnum_def)
    fix m t
    assume m: "startTime (measure_m m) = Num t \<and> x_px (getLayout c m) = Num px"
    then have st: "startTime (measure_m m) = Num t" and xm: "x_px (getLayout c m) = Num px"
      by simp_all
    from xm x_px_getLayout [OF z(1) cx st w] have "(t - cx) * z + w / 2 = px"
      by simp
    then have t: "t = cx + ?d / z"
      using z(2) by (auto simp: field_simps)
    have "x_px (getLayout (c\<lparr>state := (state c)\<lparr>zoom := updatedZoom c ev,
                                                 center := updatedCenter c ev\<rparr>\<rparr>) m)
            = Num ((t - ?c) * z' + w / 2)"
      using st w by (intro x_px_getLayout) (simp_all add: z'(1) ucv)
    also have "(t - ?c) * z' + w / 2 = px"
      using nz by (simp add: t)
    finally show "x_px (getLayout (c\<lparr>state := (state c)\<lparr>zoom := updatedZoom c ev,
                                                 center := updatedCenter c ev\<rparr>\<rparr>) m)
                    = Num px" .
  }
qed

theorem handleWheel_unclamped_witness:
  "\<not> js_strict_eq (updatedZoom (comp_of (Num 4) (Num 1) False False None)
                                  (event_at 502 10 (- 200)))
                     (zoom (state (comp_of (Num 4) (Num 1) False False None))) \<and>
   updatedZoom (comp_of (Num 4) (Num 1) False False None) (event_at 502 10 (- 200)) = Num 2 \<and>
   js_le MIN_ZOOM (Num 2) \<and> js_le (Num 2) MAX_ZOOM \<and>
   getExtents (layoutOf rt_ABC) (props (comp_of (Num 4) (Num 1) False False None))
     = Inr \<lparr>startOffset = Num 0, endOffset = Num 8, size_e = Num 8\<rparr> \<and>
   updatedCenter (comp_of (Num 4) (Num 1) False False None) (event_at 502 10 (- 200)) = Num 5 \<and>
   js_le (Num 0) (Num 5) \<and> js_le (Num 5) (Num 8) \<and>
   zoom (state (comp_of (Num 4) (Num 1) False False None)) = Num 1 \<and> (1::real) \<noteq> 0 \<and>
   center (state (comp_of (Num 4) (Num 1) False False None)) = Num 4 \<and>
   fst (getCanvasMousePos (event_at 502 10 (- 200))) = Num 502 \<and>
   viewportWidth (props (comp_of (Num 4) (Num 1) False False None)) = Num 1000 \<and>
   handleWheel (layoutOf rt_ABC) (comp_of (Num 4) (Num 1) False False None)
               (event_at 502 10 (- 200))
     = Inr ((comp_of (Num 4) (Num 1) False False None)
              \<lparr>state := (state (comp_of (Num 4) (Num 1) False False None))
                          \<lparr>zoom := Num 2, center := Num 5\<rparr>\<rparr>) \<and>
   pixelToTime (Num 502) (props (comp_of (Num 4) (Num 1) False False None))
               ((state (comp_of (Num 4) (Num 1) False False None))
                  \<lparr>zoom := Num 2, center := Num 5\<rparr>)
     = pixelToTime (Num 502) (props (comp_of (Num 4) (Num 1) False False None))
                   (state (comp_of (Num 4) (Num 1) False False None)) \<and>
   startTime (measure_m rC) = Num 6 \<and>
   x_px (getLayout (comp_of (Num 4) (Num 1) False False None) rC) = Num 502 \<and>
   x_px (getLayout ((comp_of (Num 4) (Num 1) False False None)
                      \<lparr>state := (state (comp_of (Num 4) (Num 1) False False None))
                                  \<lparr>zoom := Num 2, center := Num 5\<rparr>\<rparr>) rC) = Num 502"
proof -
  let ?c = "comp_of (Num 4) (Num 1) False False None"
  let ?ev = "event_at 502 10 (- 200)"
  let ?ext = "\<lparr>startOffset = Num 0, endOffset = Num 8, size_e = Num 8\<rparr>"
  have h1: "zoom (state ?c) = Num 1"
    by (simp add: state_comp_of)
  have h2: "updatedZoom ?c ?ev = Num 2"
    by (simp add: wheel_locals)
  have h3: "center (state ?c) = Num 4"
    by (simp add: state_comp_of)
  have h4: "fst (getCanvasMousePos ?ev) = Num 502"
    by (simp add: mousePos_event_at)
  have h5: "viewportWidth (props ?c) = Num 1000"
    by (simp add: props_comp_of props_of_sel)
  have h6: "getExtents (layoutOf rt_ABC) (props ?c) = Inr ?ext"
    by (simp add: getExtents_ABC props_comp_of props_of_sel)
  have h7: "startTime (measure_m rC) = Num 6"
    by (simp add: rC_def mC_def)
  have h8: "x_px (getLayout ?c rC) = Num 502"
    using x_px_getLayout [OF h1 h3 h7 h5] by simp
  have h9: "updatedCenter ?c ?ev = Num 5"
    by (simp add: updatedCenter_def wheel_locals state_comp_of PX_PER_MS_def minus_jsnum_def)
  have d: "\<not> js_strict_eq (updatedZoom ?c ?ev) (zoom (state ?c))"
    by (simp add: h1 h2 js_strict_eq_def)
  have b1: "js_le MIN_ZOOM (Num 2)" and b2: "js_le (Num 2) MAX_ZOOM"
    by (simp_all add: MIN_ZOOM_def MAX_ZOOM_def)
  have b3: "js_le (Num 0) (Num 5)" and b4: "js_le (Num 5) (Num 8)"
    by simp_all
  have zb1: "js_le MIN_ZOOM (updatedZoom ?c ?ev)" and zb2: "js_le (updatedZoom ?c ?ev) MAX_ZOOM"
    using b1 b2 by (simp_all add: h2)
  have cb1: "js_le (startOffset ?ext) (updatedCenter ?c ?ev)"
    and cb2: "js_le (updatedCenter ?c ?ev) (endOffset ?ext)"
    by (simp_all add: h9)
  note T = handleWheel_unclamped [OF d zb1 zb2 h6 cb1 cb2, of 1 4 502 1000]
  from T [THEN conjunct1] have T1: "handleWheel (layoutOf rt_ABC) ?c ?ev
              = Inr (?c\<lparr>state := (state ?c)\<lparr>zoom := Num 2, center := Num 5\<rparr>\<rparr>)"
    unfolding h2 h9 .
  have one: "(1::real) \<noteq> 0"
    by simp
  from T h1 one h3 h4 h5 have
    "pixelToTime (Num 502) (props ?c)
         ((state ?c)\<lparr>zoom := updatedZoom ?c ?ev, center := updatedCenter ?c ?ev\<rparr>)
       = pixelToTime (Num 502) (props ?c) (state ?c) \<and>
     (\<forall>m t. startTime (measure_m m) = Num t \<and> x_px (getLayout ?c m) = Num 502 \<longrightarrow>
        x_px (getLayout (?c\<lparr>state := (state ?c)\<lparr>zoom := updatedZoom ?c ?ev,
                                                  center := updatedCenter ?c ?ev\<rparr>\<rparr>) m)
          = Num 502)"
    by blast
  then have T2: "pixelToTime (Num 502) (props ?c) ((state ?c)\<lparr>zoom := Num 2, center := Num 5\<rparr>)
              = pixelToTime (Num 502) (props ?c) (state ?c)"
    and T3: "\<forall>m t. startTime (measure_m m) = Num t \<and> x_px (getLayout ?c m) = Num 502 \<longrightarrow>
               x_px (getLayout (?c\<lparr>state := (state ?c)\<lparr>zoom := Num 2, center := Num 5\<rparr>\<rparr>) m)
                 = Num 502"
    unfolding h2 h9 by blast+
  from T3 h7 h8 have T4: "x_px (getLayout (?c\<lparr>state := (state ?c)\<lparr>zoom := Num 2,
      center := Num 5\<rparr>\<rparr>) rC) = Num 502"
    by blast
  from d h2 b1 b2 h6 h9 b3 b4 h1 one h3 h4 h5 T1 T2 h7 h8 T4 show ?thesis
    by blast
qed

text \<open>
  Claim C5. The layout of a renderable measure in a viewport has
  \<open>width = max(duration * zoom - xGutter, 0)\<close>,
  \<open>x = (startTime - center) * zoom + viewportWidth / 2\<close>,
  \<open>y = stackIndex * (laneHeight + laneGutter)\<close> and
  \<open>inView = !(x + width < 0 || viewportWidth < x)\<close>, and its width is never negative.
\<close>

theorem getLayout_projection:
  "(let l = getLayout c m in
      width l = Math_max (duration (measure_m m) * zoom (state c) - BAR_X_GUTTER) (Num 0) \<and>
      x_px l = (startTime (measure_m m) - center (state c)) * zoom (state c)
               + viewportWidth (props c) / Num 2 \<and>
      y_px l = Num (real (stackIndex m)) * (BAR_HEIGHT + BAR_Y_GUTTER) \<and>
      inView l = (\<not> (js_lt (x_px l + width l) (Num 0) \<or>
                      js_lt (viewportWidth (props c)) (x_px l))) \<and>
      \<not> js_lt (width l) (Num 0))"
  by (simp add: getLayout_def Let_def PX_PER_MS_def mul_one Math_max_not_neg)

text \<open>
  Claim C6. On pointer-up, when \<open>dragMoved\<close> is false the selection becomes the result of
  the hit test at the release point; when \<open>dragMoved\<close> is true the selection is left as it
  was. In both cases the drag is over, and a pointer-down starts with \<open>dragMoved\<close> false.
\<close>

theorem mouseUp_selection:
  "(\<not> dragMoved (state c) \<longrightarrow>
      selection (state (mouseUp c ev)) = getIntersectingMeasure c ev) \<and>
   (dragMoved (state c) \<longrightarrow>
      selection (state (mouseUp c ev)) = selection (state c)) \<and>
   \<not> dragging (state (mouseUp c ev)) \<and> \<not> dragMoved (state (mouseUp c ev)) \<and>
   \<not> dragMoved (state (mouseDown c ev'))"
  by (simp add: mouseUp_def mouseDown_def)

theorem mouseUp_selection_witness:
  "\<not> dragMoved (state (comp_of (Num 4) (Num 1) True False (Some rA))) \<and>
   selection (state (mouseUp (comp_of (Num 4) (Num 1) True False (Some rA))
                             (event_at 499 20 0))) = Some rB \<and>
   dragMoved (state (comp_of (Num 4) (Num 1) True True (Some rA))) \<and>
   selection (state (mouseUp (comp_of (Num 4) (Num 1) True True (Some rA))
                             (event_at 499 20 0))) = Some rA"
  using mouseUp_selection [of "comp_of (Num 4) (Num 1) True False (Some rA)" "event_at 499 20 0"]
        mouseUp_selection [of "comp_of (Num 4) (Num 1) True True (Some rA)" "event_at 499 20 0"]
  by (simp add: hit_B state_comp_of)

text \<open>
  Claim C7 (as stated, refuted). The component is not dragging, nothing is hovered, and
  the pointer moves onto the rectangle of \<open>B\<close>: the hit test finds \<open>B\<close>, but the state is
  not set, and \<open>hovered\<close> stays empty.
\<close>

theorem mouseMove_idle_keeps_hovered:
  "\<not> dragging (state (comp_of (Num 4) (Num 1) False False (Some rA))) \<and>
   hovered (state (comp_of (Num 4) (Num 1) False False (Some rA))) = None \<and>
   getIntersectingMeasure (comp_of (Num 4) (Num 1) False False (Some rA)) (event_at 499 20 0)
     = Some rB \<and>
   mouseMove (layoutOf rt_ABC) (comp_of (Num 4) (Num 1) False False (Some rA)) (event_at 499 20 0)
     = Inr ((comp_of (Num 4) (Num 1) False False (Some rA))\<lparr>mouseX := Num 499, mouseY := Num 20\<rparr>) \<and>
   hovered (state ((comp_of (Num 4) (Num 1) False False (Some rA))
                     \<lparr>mouseX := Num 499, mouseY := Num 20\<rparr>)) = None"
proof -
  have t: "tooltip (comp_of (Num 4) (Num 1) False False (Some rA)) = None"
    by (simp add: comp_of_def renderCanvas_def)
  show ?thesis
    by (simp add: hit_B state_comp_of mouseMove_def Let_def t mousePos_event_at)
qed

text \<open>
  Claim C7 (amended). A pointer-move while not dragging runs the hit test and writes its
  result to the tooltip element only (with the mouse position); the state, \<open>hovered\<close> and
  the selection included, is unchanged. A pointer-move while dragging, on a trace that is
  not empty, sets the state to the old one with the center panned and clamped, that is
  \<open>_clampCenter(center - movementX / zoom)\<close>, with the result of the hit test in \<open>hovered\<close>
  and with \<open>dragMoved\<close> true; the selection is unchanged.
\<close>

theorem mouseMove_hover:
  "(\<not> dragging (state c) \<longrightarrow>
      (\<exists>c'. mouseMove tt c ev = Inr c' \<and> state c' = state c \<and>
            (mouseX c', mouseY c') = getCanvasMousePos ev \<and>
            (\<forall>t. tooltip c = Some t \<longrightarrow>
               (\<exists>t'. tooltip c' = Some t' \<and>
                     tip_content t' = (case getIntersectingMeasure c ev of
                                         None \<Rightarrow> tip_content t
                                       | Some h \<Rightarrow> Some (measure_m h)))))) \<and>
   (dragging (state c) \<and> tt (trace (props c)) \<noteq> [] \<longrightarrow>
      (\<exists>c' cc. mouseMove tt c ev = Inr c' \<and>
            clampCenter tt (props c) (center (state c) - movementX ev / zoom (state c))
              = Inr cc \<and>
            state c' = (state c)\<lparr>center := cc, hovered := getIntersectingMeasure c ev,
                                   dragMoved := True\<rparr> \<and>
            (mouseX c', mouseY c') = getCanvasMousePos ev \<and>
            center (state c') = cc \<and>
            hovered (state c') = getIntersectingMeasure c ev \<and>
            selection (state c') = selection (state c) \<and> dragMoved (state c')))"
proof (intro conjI impI)
  assume "\<not> dragging (state c)"
  then show "\<exists>c'. mouseMove tt c ev = Inr c' \<and> state c' = state c \<and>
            (mouseX c', mouseY c') = getCanvasMousePos ev \<and>
            (\<forall>t. tooltip c = Some t \<longrightarrow>
               (\<exists>t'. tooltip c' = Some t' \<and>
                     tip_content t' = (case getIntersectingMeasure c ev of
                                         None \<Rightarrow> tip_content t
                                       | Some h \<Rightarrow> Some (measure_m h))))"
    by (rule mouseMove_idle)
next
  assume "dragging (state c) \<and> tt (trace (props c)) \<noteq> []"
  then obtain c' cc where h: "mouseMove tt c ev = Inr c'"
    "clampCenter tt (props c) (center (state c) - movementX ev / zoom (state c)) = Inr cc"
    "state c' = (state c)\<lparr>center := cc, hovered := getIntersectingMeasure c ev,
                                   dragMoved := True\<rparr>"
    "(mouseX c', mouseY c') = getCanvasMousePos ev"
    using mouseMove_dragging_state [of c tt ev] by blast
  from h(3) have "center (state c') = cc" "hovered (state c') = getIntersectingMeasure c ev"
    "selection (state c') = selection (state c)" "dragMoved (state c')"
    by simp_all
  with h show "\<exists>c' cc. mouseMove tt c ev = Inr c' \<and>
            clampCenter tt (props c) (center (state c) - movementX ev / zoom (state c))
              = Inr cc \<and>
            state c' = (state c)\<lparr>center := cc, hovered := getIntersectingMeasure c ev,
                                   dragMoved := True\<rparr> \<and>
            (mouseX c', mouseY c') = getCanvasMousePos ev \<and>
            center (state c') = cc \<and>
            hovered (state c') = getIntersectingMeasure c ev \<and>
            selection (state c') = selection (state c) \<and> dragMoved (state c')"
    by blast
qed

theorem mouseMove_hover_witness:
  "\<not> dragging (state (with_tooltip (comp_of (Num 4) (Num 1) False False (Some rA)))) \<and>
   tooltip (with_tooltip (comp_of (Num 4) (Num 1) False False (Some rA)))
     = Some \<lparr>tip_left = Num 0, tip_top = Num 0, tip_content = None\<rparr> \<and>
   (\<exists>c'. mouseMove (layoutOf rt_ABC) (with_tooltip (comp_of (Num 4) (Num 1) False False (Some rA)))
                    (event_at 499 20 0) = Inr c' \<and>
         hovered (state c') = None \<and> selection (state c') = Some rA \<and>
         (\<exists>t'. tooltip c' = Some t' \<and> tip_content t' = Some mB)) \<and>
   dragging (state (comp_of (Num 4) (Num 1) True False (Some rA))) \<and>
   layoutOf rt_ABC (trace (props (comp_of (Num 4) (Num 1) True False (Some rA)))) \<noteq> [] \<and>
   clampCenter (layoutOf rt_ABC) (props (comp_of (Num 4) (Num 1) True False (Some rA)))
       (center (state (comp_of (Num 4) (Num 1) True False (Some rA)))
        - movementX (moved (event_at 499 20 0) 2)
          / zoom (state (comp_of (Num 4) (Num 1) True False (Some rA)))) = Inr (Num 2) \<and>
   (\<exists>c'. mouseMove (layoutOf rt_ABC) (comp_of (Num 4) (Num 1) True False (Some rA))
                    (moved (event_at 499 20 0) 2) = Inr c' \<and>
         center (state c') = Num 2 \<and> zoom (state c') = Num 1 \<and>
         hovered (state c') = Some rB \<and> selection (state c') = Some rA \<and>
         dragMoved (state c') \<and> mouseX c' = Num 499 \<and> mouseY c' = Num 20)"
proof -
  let ?c1 = "with_tooltip (comp_of (Num 4) (Num 1) False False (Some rA))"
  let ?c2 = "comp_of (Num 4) (Num 1) True False (Some rA)"
  let ?ev = "event_at 499 20 0"
  have s1: "state ?c1 = state (comp_of (Num 4) (Num 1) False False (Some rA))"
    by (simp add: with_tooltip_def)
  have t1: "tooltip ?c1 = Some \<lparr>tip_left = Num 0, tip_top = Num 0, tip_content = None\<rparr>"
    by (simp add: with_tooltip_def)
  have ne: "layoutOf rt_ABC (trace (props ?c2)) \<noteq> []"
    by (simp add: props_comp_of props_of_def layoutOf_def rt_ABC_def rA_def rB_def rC_def)
  have d1: "\<not> dragging (state ?c1)"
    by (simp add: s1 state_comp_of)
  have d2: "dragging (state ?c2)"
    by (simp add: state_comp_of)
  have cc: "clampCenter (layoutOf rt_ABC) (props ?c2)
       (center (state ?c2) - movementX (moved ?ev 2) / zoom (state ?c2)) = Inr (Num 2)"
    by (simp add: clampCenter_def getExtents_ABC props_comp_of props_of_sel state_comp_of
        moved_def Math_max_def Math_min_def minus_jsnum_def)
  from mouseMove_hover [of ?c1 "layoutOf rt_ABC" ?ev] d1 t1
  have A: "\<exists>c'. mouseMove (layoutOf rt_ABC) ?c1 ?ev = Inr c' \<and>
         hovered (state c') = None \<and> selection (state c') = Some rA \<and>
         (\<exists>t'. tooltip c' = Some t' \<and> tip_content t' = Some mB)"
    by (simp add: s1 state_comp_of hit_B_tooltip rB_def) fastforce
  from mouseMove_hover [of ?c2 "layoutOf rt_ABC" "moved ?ev 2"] d2 ne
  obtain c' cc' where m: "mouseMove (layoutOf rt_ABC) ?c2 (moved ?ev 2) = Inr c'"
    and c: "clampCenter (layoutOf rt_ABC) (props ?c2)
              (center (state ?c2) - movementX (moved ?ev 2) / zoom (state ?c2)) = Inr cc'"
    and s: "state c' = (state ?c2)\<lparr>center := cc',
              hovered := getIntersectingMeasure ?c2 (moved ?ev 2), dragMoved := True\<rparr>"
    and xy: "(mouseX c', mouseY c') = getCanvasMousePos (moved ?ev 2)"
    by blast
  from c cc have "cc' = Num 2"
    by simp
  with s have s': "state c' = \<lparr>center = Num 2, dragging = True, dragMoved = True,
                               hovered = Some rB, selection = Some rA, zoom = Num 1\<rparr>"
    by (simp add: state_comp_of hit_moved hit_B)
  from xy have "mouseX c' = Num 499" "mouseY c' = Num 20"
    by (simp_all add: mousePos_moved mousePos_event_at)
  with m s' have B: "\<exists>c'. mouseMove (layoutOf rt_ABC) ?c2 (moved ?ev 2) = Inr c' \<and>
         center (state c') = Num 2 \<and> zoom (state c') = Num 1 \<and>
         hovered (state c') = Some rB \<and> selection (state c') = Some rA \<and>
         dragMoved (state c') \<and> mouseX c' = Num 499 \<and> mouseY c' = Num 20"
    by simp
  from d1 t1 A d2 ne cc B show ?thesis
    by blast
qed

text \<open>
  Claim C8. Every observable viewport state is to have its zoom and center within the
  clamp bounds, the initial state included. The constructor of either version stores what
  it loads from storage as it is: with a stored zoom of 1000 and a stored center of 20000,
  on a trace spanning \<open>[0, 10000]\<close>, the initial state has zoom 1000 and center 20000,
  where the clamps give 100 and 10000. The defaults are not clamped either: on the
  scenario, with extents \<open>[0, 8]\<close> and nothing stored, the initial center is 500 and the
  initial zoom 1, where the clamps give 8 and 125.
\<close>

theorem constructor_unclamped:
  "Trace_constructor K0 (layoutOf rt_L) ls_stored (Trace_props_of [mL] True)
     = Inr (Trace_state_of (Num 20000) (Num 1000) (Num 500)) \<and>
   Trace_clampZoom K0 (layoutOf rt_L) (Trace_props_of [mL] True) (Num 1000) = Inr (Num 100) \<and>
   clampCenter (layoutOf rt_L) (Trace_props_of [mL] True) (Num 20000) = Inr (Num 10000) \<and>
   constructor (layoutOf rt_L) ls_stored (props_of [mL])
     = Inr \<lparr>props = props_of [mL],
            state = \<lparr>center = Num 20000, dragging = False, dragMoved = False, hovered = None,
                     selection = None, zoom = Num 1000\<rparr>,
            renderedShapes = [], mouseX = Num 0, mouseY = Num 0, tooltip = None\<rparr> \<and>
   clampZoom (Num 1000) = Num 100 \<and>
   clampCenter (layoutOf rt_L) (props_of [mL]) (Num 20000) = Inr (Num 10000) \<and>
   Trace_constructor K0 (layoutOf rt_ABC) ls_empty (Trace_props_of [mA, mB, mC] False)
     = Inr (Trace_state_of (Num 500) (Num 1) (Num 500)) \<and>
   Trace_clampZoom K0 (layoutOf rt_ABC) (Trace_props_of [mA, mB, mC] False) (Num 1)
     = Inr (Num 125) \<and>
   clampCenter (layoutOf rt_ABC) (Trace_props_of [mA, mB, mC] False) (Num 500) = Inr (Num 8)"
  by (simp add: Trace_constructor_def constructor_def Trace_loadValue_def loadValue_def
      Trace_clampZoom_def Trace_getMinZoom_def clampCenter_def clampZoom_def getExtents_def
      Trace_state_of_def ex_defs)

text \<open>
  Claim C9 (as stated, refuted). In the scenario of the specification the renderable trace
  is sorted by start time and its last element \<open>C\<close> ends at 8, while \<open>A\<close> ends at 10: the
  end of the extents is 8, and the maximum end time over the trace is 10.
\<close>

theorem getExtents_not_max_end:
  "sortedByStart (layoutOf rt_ABC (trace (props_of [mA, mB, mC]))) \<and>
   getExtents (layoutOf rt_ABC) (props_of [mA, mB, mC])
     = Inr \<lparr>startOffset = Num 0, endOffset = Num 8, size_e = Num 8\<rparr> \<and>
   minStartTime (layoutOf rt_ABC (trace (props_of [mA, mB, mC]))) = Some (Num 0) \<and>
   maxEndTime (layoutOf rt_ABC (trace (props_of [mA, mB, mC]))) = Some (Num 10)"
  by (simp add: getExtents_def sortedByStart_def endTime_def ex_defs)

text \<open>
  Claim C9 (amended). For a renderable trace that is not empty the extents are those of
  its first and last elements: the start of the first, the end of the last, and their
  difference. The start of the extents is the minimum start time whenever the trace is
  sorted by start time; the end of the extents is the maximum end time whenever no element
  ends later than the last one.
\<close>

theorem getExtents_first_last:
  "tt (trace p) = r # rs \<Longrightarrow>
   getExtents tt p =
     Inr \<lparr>startOffset = startTime (measure_m r), endOffset = endTime (last (r # rs)),
          size_e = endTime (last (r # rs)) - startTime (measure_m r)\<rparr> \<and>
   (sortedByStart (r # rs) \<longrightarrow> minStartTime (r # rs) = Some (startTime (measure_m r))) \<and>
   ((\<forall>q \<in> set (r # rs). js_le (endTime q) (endTime (last (r # rs)))) \<longrightarrow>
      maxEndTime (r # rs) = Some (endTime (last (r # rs))))"
proof (intro conjI impI)
  assume "tt (trace p) = r # rs"
  then show "getExtents tt p =
     Inr \<lparr>startOffset = startTime (measure_m r), endOffset = endTime (last (r # rs)),
          size_e = endTime (last (r # rs)) - startTime (measure_m r)\<rparr>"
    by (rule getExtents_Cons)
next
  assume "sortedByStart (r # rs)"
  then show "minStartTime (r # rs) = Some (startTime (measure_m r))"
    by (rule minStartTime_sorted)
next
  assume "\<forall>q \<in> set (r # rs). js_le (endTime q) (endTime (last (r # rs)))"
  then show "maxEndTime (r # rs) = Some (endTime (last (r # rs)))"
    by (intro maxEndTime_last) simp_all
qed

theorem getExtents_first_last_witness:
  "layoutOf [rB, rC] (trace (props_of [mB, mC])) = [rB, rC] \<and>
   sortedByStart [rB, rC] \<and>
   js_le (endTime rB) (endTime (last [rB, rC])) \<and>
   js_le (endTime rC) (endTime (last [rB, rC])) \<and>
   getExtents (layoutOf [rB, rC]) (props_of [mB, mC])
     = Inr \<lparr>startOffset = Num 2, endOffset = Num 8, size_e = Num 6\<rparr> \<and>
   minStartTime [rB, rC] = Some (Num 2) \<and>
   maxEndTime [rB, rC] = Some (Num 8)"
proof -
  have a: "layoutOf [rB, rC] (trace (props_of [mB, mC])) = [rB, rC]"
    by (simp add: layoutOf_def rB_def rC_def props_of_def)
  from a getExtents_first_last [of "layoutOf [rB, rC]" "props_of [mB, mC]" rB "[rC]"]
  show ?thesis
    by (simp add: sortedByStart_def endTime_def rB_def rC_def mB_def mC_def minus_jsnum_def)
qed

text \<open>
  Claim C10. When the clamped candidate zoom of a wheel event equals the current zoom,
  the wheel handler changes nothing: it returns the component as it was, center included.
\<close>

theorem handleWheel_pinned:
  "js_strict_eq (clampZoom (updatedZoom c ev)) (zoom (state c)) \<Longrightarrow> handleWheel tt c ev = Inr c"
  by (simp add: handleWheel_def)

theorem handleWheel_pinned_witness:
  "js_strict_eq (clampZoom (updatedZoom (comp_of (Num 4) (Num 100) False False None)
                                        (event_at 600 10 (- 100))))
                (zoom (state (comp_of (Num 4) (Num 100) False False None))) \<and>
   updatedCenter (comp_of (Num 4) (Num 100) False False None) (event_at 600 10 (- 100))
     = Num (13 / 3) \<and>
   handleWheel (layoutOf rt_ABC) (comp_of (Num 4) (Num 100) False False None)
               (event_at 600 10 (- 100))
     = Inr (comp_of (Num 4) (Num 100) False False None)"
proof -
  have z: "updatedZoom (comp_of (Num 4) (Num 100) False False None) (event_at 600 10 (- 100))
             = Num 150"
    by (simp add: updatedZoom_def state_comp_of event_at_def)
  have pinned: "js_strict_eq (clampZoom (updatedZoom (comp_of (Num 4) (Num 100) False False None)
                                        (event_at 600 10 (- 100))))
                (zoom (state (comp_of (Num 4) (Num 100) False False None)))"
    by (simp add: z clampZoom_def js_strict_eq_def state_comp_of MIN_ZOOM_def MAX_ZOOM_def
        Math_max_def Math_min_def)
  have c: "updatedCenter (comp_of (Num 4) (Num 100) False False None) (event_at 600 10 (- 100))
             = Num (13 / 3)"
    by (simp add: updatedCenter_def updatedZoom_def mouseOffsetFromCenter_def
        getCanvasMousePos_def state_comp_of props_comp_of props_of_def event_at_def
        PX_PER_MS_def minus_jsnum_def)
  from pinned c handleWheel_pinned [OF pinned, of "layoutOf rt_ABC"] show ?thesis
    by simp
qed

end
